theory Spec2Isabelle
  imports Main "HOL-Library.Word"
begin

unbundle bit_operations_syntax

section \<open>Python values\<close>

subsection \<open>Strings\<close>

text \<open>
  A Python \<open>str\<close> is a sequence of Unicode code points and \<open>len\<close> counts code points,
  so a string is a list of code points. \<open>ascii\<close> writes an ASCII literal.
\<close>

type_synonym pystr = "nat list"

definition ascii :: "string \<Rightarrow> pystr" where
  "ascii s = map of_char s"

text \<open>\<open>str(n)\<close> of a non-negative integer: its decimal digits.\<close>

fun nat_str :: "nat \<Rightarrow> pystr" where
  "nat_str n = (if n < 10 then [48 + n] else nat_str (n div 10) @ [48 + n mod 10])"

declare nat_str.simps [simp del]

definition int_str :: "int \<Rightarrow> pystr" where
  "int_str i = (if i < 0 then 45 # nat_str (nat (- i)) else nat_str (nat i))"

text \<open>Lower-case hexadecimal with a fixed number of digits, as in \<open>\xNN\<close> and \<open>\uNNNN\<close>.\<close>

definition hex_digit :: "nat \<Rightarrow> nat" where
  "hex_digit d = (if d < 10 then 48 + d else 87 + d)"

fun hex_fixed :: "nat \<Rightarrow> nat \<Rightarrow> pystr" where
  "hex_fixed 0 n = []"
| "hex_fixed (Suc k) n = hex_fixed k (n div 16) @ [hex_digit (n mod 16)]"

subsection \<open>JSON values as Python objects\<close>

text \<open>
  What \<open>json.load\<close> returns: \<open>None\<close>, \<open>bool\<close>, \<open>int\<close> (unbounded), \<open>float\<close> (the 64 bits
  of an IEEE double), \<open>str\<close>, \<open>list\<close> and \<open>dict\<close>. A \<open>dict\<close> iterates in insertion order,
  so it is an association list; its keys are strings, each of them once.
\<close>

datatype json =
    JNone
  | JBool bool
  | JInt int
  | JFloat "64 word"
  | JStr pystr
  | JList "json list"
  | JDict "(pystr \<times> json) list"

text \<open>
  The parts of the Python runtime that the program uses and that are tables or algorithms
  of the interpreter: the shortest round-trip \<open>repr\<close> of a float and the Unicode
  database's printable property (consulted by \<open>repr\<close> of a string for code points
  above ASCII).
\<close>

record pyenv =
  float_repr :: "64 word \<Rightarrow> pystr"
  isprintable :: "nat \<Rightarrow> bool"

text \<open>\<open>type(value).__name__\<close>\<close>

fun type_name :: "json \<Rightarrow> pystr" where
  "type_name JNone = ascii ''NoneType''"
| "type_name (JBool b) = ascii ''bool''"
| "type_name (JInt i) = ascii ''int''"
| "type_name (JFloat f) = ascii ''float''"
| "type_name (JStr s) = ascii ''str''"
| "type_name (JList xs) = ascii ''list''"
| "type_name (JDict kvs) = ascii ''dict''"

text \<open>\<open>isinstance(value, (dict, list))\<close>\<close>

fun is_container :: "json \<Rightarrow> bool" where
  "is_container (JList xs) = True"
| "is_container (JDict kvs) = True"
| "is_container v = False"

text \<open>
  \<open>repr\<close> of a string: single quotes unless the string holds a single quote and no double
  quote; the quote and the backslash are escaped, tab, newline and carriage return have
  their two-character forms, other control characters and DEL are \<open>\xNN\<close>, printable ASCII
  is copied, and a code point above ASCII is copied when printable and otherwise written
  as \<open>\xNN\<close>, \<open>\uNNNN\<close> or \<open>\UNNNNNNNN\<close> by its size.
\<close>

definition repr_char :: "pyenv \<Rightarrow> nat \<Rightarrow> nat \<Rightarrow> pystr" where
  "repr_char E quote ch =
     (if ch = quote \<or> ch = 92 then [92, ch]
      else if ch = 9 then [92, 116]
      else if ch = 10 then [92, 110]
      else if ch = 13 then [92, 114]
      else if ch < 32 \<or> ch = 127 then [92, 120] @ hex_fixed 2 ch
      else if ch < 127 then [ch]
      else if isprintable E ch then [ch]
      else if ch < 256 then [92, 120] @ hex_fixed 2 ch
      else if ch < 65536 then [92, 117] @ hex_fixed 4 ch
      else [92, 85] @ hex_fixed 8 ch)"

definition str_repr :: "pyenv \<Rightarrow> pystr \<Rightarrow> pystr" where
  "str_repr E s =
     (let quote = (if 39 \<in> set s \<and> 34 \<notin> set s then 34 else 39)
      in [quote] @ concat (map (repr_char E quote) s) @ [quote])"

text \<open>\<open>sep.join(parts)\<close>\<close>

fun py_join :: "pystr \<Rightarrow> pystr list \<Rightarrow> pystr" where
  "py_join sep [] = []"
| "py_join sep [p] = p"
| "py_join sep (p # q # ps) = p @ sep @ py_join sep (q # ps)"

text \<open>\<open>repr(value)\<close>: what \<open>str\<close> of a list or dict shows for each element.\<close>

fun py_repr :: "pyenv \<Rightarrow> json \<Rightarrow> pystr" where
  "py_repr E JNone = ascii ''None''"
| "py_repr E (JBool b) = (if b then ascii ''True'' else ascii ''False'')"
| "py_repr E (JInt i) = int_str i"
| "py_repr E (JFloat f) = float_repr E f"
| "py_repr E (JStr s) = str_repr E s"
| "py_repr E (JList xs) = [91] @ py_join [44, 32] (map (py_repr E) xs) @ [93]"
| "py_repr E (JDict kvs) =
     [123] @ py_join [44, 32] (map (\<lambda>(k, v). str_repr E k @ [58, 32] @ py_repr E v) kvs) @ [125]"

text \<open>\<open>str(value)\<close>: a string is itself, everything else is its \<open>repr\<close>.\<close>

fun py_str :: "pyenv \<Rightarrow> json \<Rightarrow> pystr" where
  "py_str E (JStr s) = s"
| "py_str E v = py_repr E v"

section \<open>The output sink\<close>

text \<open>
  Each Streamlit call that shows something appends one element to the page. The page is
  passed through every function and returned extended. The widgets that ask for input
  (select box, file uploader, text fields, button) are known by what they return, and
  the containers that only arrange the page (columns, tabs, expander, spinner) are left
  out.
\<close>

datatype ui =
    Title pystr
  | Markdown pystr
  | SidebarTitle pystr
  | Header pystr
  | Subheader pystr
  | Success pystr
  | Error pystr
  | Warning pystr
  | Metric pystr pystr
  | JsonView json
  | Code pystr
  | DownloadButton pystr pystr pystr pystr
  | Write pystr

type_synonym page = "ui list"

section \<open>analyze_json_structure\<close>

text \<open>The two size limits of the recursion, lines 167 and 180.\<close>

definition dict_child_limit :: nat where
  "dict_child_limit = 1000"

definition list_item_limit :: nat where
  "list_item_limit = 500"

text \<open>\<open>prefix if prefix else 'Root'\<close>\<close>

definition label :: "pystr \<Rightarrow> pystr" where
  "label prefix = (if prefix \<noteq> [] then prefix else ascii ''Root'')"

text \<open>Line 162: the header of a dict, with \<open>len(data)\<close> keys.\<close>

definition dict_header :: "pystr \<Rightarrow> nat \<Rightarrow> pystr" where
  "dict_header prefix n =
     ascii ''**'' @ label prefix @ ascii ''** ('' @ [36766, 26360, 22411] @ ascii '' - ''
       @ nat_str n @ ascii '' keys)''"

text \<open>Line 174: the header of a list, with \<open>len(data)\<close> items.\<close>

definition list_header :: "pystr \<Rightarrow> nat \<Rightarrow> pystr" where
  "list_header prefix n =
     ascii ''**'' @ label prefix @ ascii ''** ('' @ [37197, 21015, 22411] @ ascii '' - ''
       @ nat_str n @ ascii '' items)''"

text \<open>Line 166: the line of a container child.\<close>

definition container_line :: "pystr \<Rightarrow> json \<Rightarrow> pystr" where
  "container_line key v = [32, 32, 8226, 32, 96] @ key @ ascii ''`: '' @ type_name v"

text \<open>Line 170: the preview of a scalar child.\<close>

definition preview :: "pyenv \<Rightarrow> json \<Rightarrow> pystr" where
  "preview E v =
     (if length (py_str E v) > 50 then take 50 (py_str E v) @ ascii ''...'' else py_str E v)"

text \<open>Line 171: the line of a scalar child.\<close>

definition scalar_line :: "pyenv \<Rightarrow> pystr \<Rightarrow> json \<Rightarrow> pystr" where
  "scalar_line E key v =
     [32, 32, 8226, 32, 96] @ key @ ascii ''`: '' @ type_name v @ ascii '' = '' @ preview E v"

text \<open>Line 177: the type of the first element.\<close>

definition first_item_line :: "json \<Rightarrow> pystr" where
  "first_item_line v = [32, 32, 8226, 32, 35201, 32032, 22411, 58, 32] @ type_name v"

text \<open>Line 168: the prefix of a dict child.\<close>

definition child_prefix :: "pystr \<Rightarrow> pystr \<Rightarrow> pystr" where
  "child_prefix prefix key = (if prefix \<noteq> [] then prefix @ ascii ''.'' @ key else key)"

text \<open>Line 181: the prefix of a list item.\<close>

definition item_prefix :: "pystr \<Rightarrow> nat \<Rightarrow> pystr" where
  "item_prefix prefix i =
     (if prefix \<noteq> [] then prefix @ ascii ''['' @ nat_str i @ ascii '']''
      else ascii ''['' @ nat_str i @ ascii '']'')"

text \<open>
  The function and its two loops: \<open>dict_items\<close> is the \<open>for key, value in data.items()\<close>
  of line 163 on the pairs still to visit, \<open>list_items\<close> the
  \<open>for i, item in enumerate(data)\<close> of line 179 on the items still to visit, \<open>i\<close> being the
  index of the first of them. A value that is neither dict nor list writes nothing.
\<close>

fun analyze_json_structure :: "pyenv \<Rightarrow> json \<Rightarrow> pystr \<Rightarrow> page \<Rightarrow> page"
  and dict_items :: "pyenv \<Rightarrow> (pystr \<times> json) list \<Rightarrow> pystr \<Rightarrow> page \<Rightarrow> page"
  and list_items :: "pyenv \<Rightarrow> json list \<Rightarrow> nat \<Rightarrow> pystr \<Rightarrow> page \<Rightarrow> page"
where
  "analyze_json_structure E (JDict kvs) prefix out =
     dict_items E kvs prefix (out @ [Write (dict_header prefix (length kvs))])"
| "analyze_json_structure E (JList xs) prefix out =
     (let out1 = out @ [Write (list_header prefix (length xs))] in
      case xs of
        [] \<Rightarrow> out1
      | x # _ \<Rightarrow>
          (let out2 = out1 @ [Write (first_item_line x)] in
           if length xs \<le> 3 then list_items E xs 0 prefix out2 else out2))"
| "analyze_json_structure E JNone prefix out = out"
| "analyze_json_structure E (JBool b) prefix out = out"
| "analyze_json_structure E (JInt i) prefix out = out"
| "analyze_json_structure E (JFloat f) prefix out = out"
| "analyze_json_structure E (JStr s) prefix out = out"
| "dict_items E [] prefix out = out"
| "dict_items E ((key, v) # rest) prefix out =
     (if is_container v then
        (let out1 = out @ [Write (container_line key v)] in
         if length (py_str E v) < dict_child_limit
         then dict_items E rest prefix (analyze_json_structure E v (child_prefix prefix key) out1)
         else dict_items E rest prefix out1)
      else dict_items E rest prefix (out @ [Write (scalar_line E key v)]))"
| "list_items E [] i prefix out = out"
| "list_items E (item # rest) i prefix out =
     (if is_container item \<and> length (py_str E item) < list_item_limit
      then list_items E rest (Suc i) prefix (analyze_json_structure E item (item_prefix prefix i) out)
      else list_items E rest (Suc i) prefix out)"

section \<open>The serialization shown and downloaded\<close>

text \<open>
  \<open>json.dumps(json_data, ensure_ascii=False, indent=2)\<close> of line 144. A string is
  written between double quotes; the double quote, the backslash and the control
  characters below 32 are escaped and every other code point is written as it is. A
  non-empty list or dict puts each element on a line of its own, two spaces deeper than its
  bracket. A float is its \<open>repr\<close>, except \<open>NaN\<close>, \<open>Infinity\<close> and \<open>-Infinity\<close>.
\<close>

definition json_escape_char :: "nat \<Rightarrow> pystr" where
  "json_escape_char ch =
     (if ch = 92 then [92, 92]
      else if ch = 34 then [92, 34]
      else if ch = 8 then [92, 98]
      else if ch = 12 then [92, 102]
      else if ch = 10 then [92, 110]
      else if ch = 13 then [92, 114]
      else if ch = 9 then [92, 116]
      else if ch < 32 then [92, 117] @ hex_fixed 4 ch
      else [ch])"

definition json_string :: "pystr \<Rightarrow> pystr" where
  "json_string s = [34] @ concat (map json_escape_char s) @ [34]"

definition json_float :: "pyenv \<Rightarrow> 64 word \<Rightarrow> pystr" where
  "json_float E f =
     (if drop_bit 52 f AND 2047 = 2047 then
        (if f AND 4503599627370495 \<noteq> 0 then ascii ''NaN''
         else if bit f 63 then ascii ''-Infinity'' else ascii ''Infinity'')
      else float_repr E f)"

definition newline_indent :: "nat \<Rightarrow> pystr" where
  "newline_indent level = 10 # replicate (2 * level) 32"

fun json_dumps :: "pyenv \<Rightarrow> nat \<Rightarrow> json \<Rightarrow> pystr" where
  "json_dumps E level JNone = ascii ''null''"
| "json_dumps E level (JBool b) = (if b then ascii ''true'' else ascii ''false'')"
| "json_dumps E level (JInt i) = int_str i"
| "json_dumps E level (JFloat f) = json_float E f"
| "json_dumps E level (JStr s) = json_string s"
| "json_dumps E level (JList xs) =
     (if xs = [] then ascii ''[]''
      else [91] @ newline_indent (Suc level)
           @ py_join ([44] @ newline_indent (Suc level)) (map (json_dumps E (Suc level)) xs)
           @ newline_indent level @ [93])"
| "json_dumps E level (JDict kvs) =
     (if kvs = [] then ascii ''{}''
      else [123] @ newline_indent (Suc level)
           @ py_join ([44] @ newline_indent (Suc level))
               (map (\<lambda>(k, v). json_string k @ [58, 32] @ json_dumps E (Suc level) v) kvs)
           @ newline_indent level @ [125])"

section \<open>Measures and examples\<close>

text \<open>The number of values in a value, itself included.\<close>

fun jnodes :: "json \<Rightarrow> nat" where
  "jnodes (JList xs) = 1 + sum_list (map jnodes xs)"
| "jnodes (JDict kvs) = 1 + sum_list (map (\<lambda>kv. jnodes (snd kv)) kvs)"
| "jnodes v = 1"

text \<open>
  An interpreter for the examples: they hold no float, and every code point above ASCII
  counts as printable.
\<close>

definition test_env :: pyenv where
  "test_env = \<lparr>float_repr = (\<lambda>f. []), isprintable = (\<lambda>ch. True)\<rparr>"

section \<open>The application\<close>

subsection \<open>Exceptions, responses and the outside world\<close>

text \<open>
  An exception is known by its text \<open>str(e)\<close> and by the classes that the program's
  \<open>except\<close> clauses test: \<open>json.JSONDecodeError\<close>,
  \<open>requests.exceptions.RequestException\<close> and \<open>Exception\<close>.
\<close>

record pyexc =
  exc_text :: pystr
  is_JSONDecodeError :: bool
  is_RequestException :: bool
  is_Exception :: bool

text \<open>The built-in errors that \<open>dict.update\<close> raises; neither is a \<open>JSONDecodeError\<close>.\<close>

datatype builtin_error = TypeError pystr | ValueError pystr

fun exc_of :: "builtin_error \<Rightarrow> pyexc" where
  "exc_of (TypeError msg) =
     \<lparr>exc_text = msg, is_JSONDecodeError = False, is_RequestException = False,
      is_Exception = True\<rparr>"
| "exc_of (ValueError msg) =
     \<lparr>exc_text = msg, is_JSONDecodeError = False, is_RequestException = False,
      is_Exception = True\<rparr>"

text \<open>\<open>requests.exceptions.HTTPError\<close>, a \<open>RequestException\<close>.\<close>

definition http_error :: "pystr \<Rightarrow> pyexc" where
  "http_error msg =
     \<lparr>exc_text = msg, is_JSONDecodeError = False, is_RequestException = True,
      is_Exception = True\<rparr>"

record response =
  status_code :: nat
  reason :: pystr
  url :: pystr
  content :: "8 word list"

text \<open>
  \<open>Response.raise_for_status\<close> of the requests library: an \<open>HTTPError\<close> for a status
  from 400 to 599 and nothing for any other status.
\<close>

definition raise_for_status :: "response \<Rightarrow> pyexc option" where
  "raise_for_status r =
     (if 400 \<le> status_code r \<and> status_code r < 500
      then Some (http_error (nat_str (status_code r) @ ascii '' Client Error: '' @ reason r
                             @ ascii '' for url: '' @ url r))
      else if 500 \<le> status_code r \<and> status_code r < 600
      then Some (http_error (nat_str (status_code r) @ ascii '' Server Error: '' @ reason r
                             @ ascii '' for url: '' @ url r))
      else None)"

text \<open>
  The request headers: a \<open>dict\<close>, in insertion order. After \<open>update\<close> its keys and values
  are whatever the user's JSON held.
\<close>

type_synonym headers = "(json \<times> json) list"

text \<open>
  What the program calls and does not define: decoding UTF-8, \<open>json.load\<close> and
  \<open>json.loads\<close> (one parser), \<open>requests.get\<close> with its headers and timeout,
  \<open>response.json()\<close>, and \<open>dict.update\<close> on a list (a sequence of pairs).
\<close>

record world =
  utf8_decode :: "8 word list \<Rightarrow> pyexc + pystr"
  json_loads :: "pystr \<Rightarrow> pyexc + json"
  requests_get :: "pystr \<Rightarrow> headers \<Rightarrow> nat \<Rightarrow> pyexc + response"
  response_json :: "response \<Rightarrow> pyexc + json"
  update_from_list :: "headers \<Rightarrow> json list \<Rightarrow> builtin_error + headers"

text \<open>What the widgets return in one run of the script.\<close>

record ui_input =
  input_method :: pystr
  uploaded_file :: "(pystr \<times> 8 word list) option"
  api_url :: pystr
  api_key :: pystr
  auth_header :: pystr
  custom_headers :: pystr
  button_clicked :: bool

subsection \<open>The texts shown\<close>

text \<open>Line 7.\<close>

definition title_text :: pystr where
  "title_text =
    [128196, 32, 74, 83, 79, 78, 21487, 35222, 21270, 12450, 12503, 12522]"

text \<open>Line 8.\<close>

definition intro_text :: pystr where
  "intro_text =
    [74, 83, 79, 78, 12501, 12449, 12452, 12523, 12420, 65, 80, 73, 32, 12363, 12425,
     21462, 24471, 12375, 12383, 12487, 12540, 12479, 12434, 12452, 12531, 12479, 12521,
     12463, 12486, 12451, 12502, 12395, 34920, 31034, 12375, 12414, 12377]"

text \<open>Line 11.\<close>

definition sidebar_title_text :: pystr where
  "sidebar_title_text =
    [12487, 12540, 12479, 20837, 21147, 26041, 27861]"

text \<open>Line 14, the first option of the select box, compared in line 20.\<close>

definition upload_option :: pystr where
  "upload_option =
    [74, 83, 79, 78, 12501, 12449, 12452, 12523, 12434, 12450, 12483, 12503, 12525, 12540,
     12489]"

text \<open>Line 31.\<close>

definition upload_header_text :: pystr where
  "upload_header_text =
    [128193, 32, 74, 83, 79, 78, 12501, 12449, 12452, 12523, 12434, 12450, 12483, 12503,
     12525, 12540, 12489]"

text \<open>Line 44, before the file name.\<close>

definition upload_success_head :: pystr where
  "upload_success_head =
    [9989, 32, 12501, 12449, 12452, 12523, 32, 39]"

text \<open>Line 44, after the file name.\<close>

definition upload_success_tail :: pystr where
  "upload_success_tail =
    [39, 32, 12434, 27491, 24120, 12395, 35501, 12415, 36796, 12415, 12414, 12375, 12383]"

text \<open>Line 48.\<close>

definition json_error_text :: pystr where
  "json_error_text =
    [10060, 32, 74, 83, 79, 78, 24418, 24335, 12364, 27491, 12375, 12367, 12354, 12426,
     12414, 12379, 12435, 58, 32]"

text \<open>Line 50.\<close>

definition read_error_text :: pystr where
  "read_error_text =
    [10060, 32, 12501, 12449, 12452, 12523, 12398, 35501, 12415, 36796, 12415, 12395,
     22833, 25943, 12375, 12414, 12375, 12383, 58, 32]"

text \<open>Line 56.\<close>

definition api_header_text :: pystr where
  "api_header_text =
    [127760, 32, 65, 80, 73, 36899, 25658, 12391, 74, 83, 79, 78, 12487, 12540, 12479,
     12434, 21462, 24471]"

text \<open>Line 98.\<close>

definition bad_headers_text :: pystr where
  "bad_headers_text =
    [12459, 12473, 12479, 12512, 12504, 12483, 12480, 12540, 12398, 74, 83, 79, 78, 24418,
     24335, 12364, 27491, 12375, 12367, 12354, 12426, 12414, 12379, 12435]"

text \<open>Line 109, before the status code.\<close>

definition api_success_head :: pystr where
  "api_success_head =
    [9989, 32, 65, 80, 73, 12363, 12425, 12487, 12540, 12479, 12434, 27491, 24120, 12395,
     21462, 24471, 12375, 12414, 12375, 12383, 32, 40, 12473, 12486, 12540, 12479, 12473,
     58, 32]"

text \<open>Line 113.\<close>

definition request_error_text :: pystr where
  "request_error_text =
    [10060, 32, 65, 80, 73, 12522, 12463, 12456, 12473, 12488, 12395, 22833, 25943, 12375,
     12414, 12375, 12383, 58, 32]"

text \<open>Line 115.\<close>

definition not_json_text :: pystr where
  "not_json_text =
    [10060, 32, 12524, 12473, 12509, 12531, 12473, 12364, 74, 83, 79, 78, 24418, 24335,
     12391, 12399, 12354, 12426, 12414, 12379, 12435]"

text \<open>Line 117.\<close>

definition unexpected_error_text :: pystr where
  "unexpected_error_text =
    [10060, 32, 20104, 26399, 12375, 12394, 12356, 12456, 12521, 12540, 12364, 30330,
     29983, 12375, 12414, 12375, 12383, 58, 32]"

text \<open>Line 123.\<close>

definition display_header_text :: pystr where
  "display_header_text =
    [128202, 32, 74, 83, 79, 78, 12487, 12540, 12479, 12398, 21487, 35222, 21270]"

text \<open>Line 129.\<close>

definition type_metric_label :: pystr where
  "type_metric_label =
    [12487, 12540, 12479, 22411]"

text \<open>Line 133.\<close>

definition size_metric_label :: pystr where
  "size_metric_label =
    [35201, 32032, 25968]"

text \<open>Line 139.\<close>

definition tree_subheader_text :: pystr where
  "tree_subheader_text =
    [12452, 12531, 12479, 12521, 12463, 12486, 12451, 12502, 12394, 74, 83, 79, 78, 34920,
     31034]"

text \<open>Line 143.\<close>

definition raw_subheader_text :: pystr where
  "raw_subheader_text =
    [29983, 74, 83, 79, 78, 12487, 12540, 12479]"

text \<open>Line 149.\<close>

definition download_label :: pystr where
  "download_label =
    [128229, 32, 74, 83, 79, 78, 12501, 12449, 12452, 12523, 12434, 12480, 12454, 12531,
     12525, 12540, 12489]"

text \<open>Line 156.\<close>

definition structure_subheader_text :: pystr where
  "structure_subheader_text =
    [12487, 12540, 12479, 27083, 36896, 12398, 20998, 26512]"

subsection \<open>handle_file_upload\<close>

text \<open>
  Lines 29 to 52. The result is the page and either the value returned (\<open>JNone\<close> for
  \<open>return None\<close>) or an exception that no clause catches.
\<close>

definition handle_file_upload :: "world \<Rightarrow> ui_input \<Rightarrow> page \<Rightarrow> page \<times> (pyexc + json)" where
  "handle_file_upload W inp out =
     (let out1 = out @ [Header upload_header_text] in
      case uploaded_file inp of
        None \<Rightarrow> (out1, Inr JNone)
      | Some (name, bytes) \<Rightarrow>
          (case (case utf8_decode W bytes of
                   Inl e \<Rightarrow> Inl e
                 | Inr text \<Rightarrow> json_loads W text) of
             Inr json_data \<Rightarrow>
               (out1 @ [Success (upload_success_head @ name @ upload_success_tail)],
                Inr json_data)
           | Inl e \<Rightarrow>
               if is_JSONDecodeError e
               then (out1 @ [Error (json_error_text @ exc_text e)], Inr JNone)
               else if is_Exception e
               then (out1 @ [Error (read_error_text @ exc_text e)], Inr JNone)
               else (out1, Inl e)))"

subsection \<open>handle_api_request\<close>

text \<open>\<open>headers[key] = value\<close>\<close>

fun dict_setitem :: "headers \<Rightarrow> json \<Rightarrow> json \<Rightarrow> headers" where
  "dict_setitem [] k v = [(k, v)]"
| "dict_setitem ((k', v') # rest) k v =
     (if k' = k then (k', v) # rest else (k', v') # dict_setitem rest k v)"

text \<open>
  \<open>headers.update(value)\<close> for a value that \<open>json.loads\<close> returned: a dict is merged key by
  key, a list is read as a sequence of pairs, a string is a sequence of one-character
  strings (so only the empty string passes), and \<open>None\<close>, a bool or a number is not
  iterable.
\<close>

fun dict_update :: "world \<Rightarrow> headers \<Rightarrow> json \<Rightarrow> builtin_error + headers" where
  "dict_update W h (JDict kvs) = Inr (foldl (\<lambda>h (k, v). dict_setitem h (JStr k) v) h kvs)"
| "dict_update W h (JList xs) = update_from_list W h xs"
| "dict_update W h (JStr s) =
     (if s = [] then Inr h
      else Inl (ValueError
             (ascii ''dictionary update sequence element #0 has length 1; 2 is required'')))"
| "dict_update W h v =
     Inl (TypeError ([39] @ type_name v @ [39] @ ascii '' object is not iterable''))"

text \<open>Lines 67 and 75 to 85: the headers after the API key.\<close>

definition credential_headers :: "ui_input \<Rightarrow> headers" where
  "credential_headers inp =
     (if api_key inp \<noteq> [] then
        (if auth_header inp = ascii ''Authorization: Bearer''
         then dict_setitem [] (JStr (ascii ''Authorization''))
                (JStr (ascii ''Bearer '' @ api_key inp))
         else if auth_header inp = ascii ''Authorization: API-Key''
         then dict_setitem [] (JStr (ascii ''Authorization''))
                (JStr (ascii ''API-Key '' @ api_key inp))
         else dict_setitem [] (JStr (ascii ''X-API-Key'')) (JStr (api_key inp)))
      else [])"

text \<open>
  Lines 93 to 98: the custom headers. The only \<open>except\<close> clause is for
  \<open>json.JSONDecodeError\<close>; any other exception leaves the function.
\<close>

definition custom_header_block ::
  "world \<Rightarrow> ui_input \<Rightarrow> headers \<Rightarrow> page \<Rightarrow> pyexc + (headers \<times> page)" where
  "custom_header_block W inp h out =
     (if custom_headers inp \<noteq> [] then
        (case json_loads W (custom_headers inp) of
           Inl e \<Rightarrow>
             if is_JSONDecodeError e then Inr (h, out @ [Warning bad_headers_text]) else Inl e
         | Inr custom_headers_dict \<Rightarrow>
             (case dict_update W h custom_headers_dict of
                Inl err \<Rightarrow> Inl (exc_of err)
              | Inr h' \<Rightarrow> Inr (h', out)))
      else Inr (h, out))"

text \<open>Lines 112 to 119: the \<open>except\<close> clauses of the request, in their order.\<close>

definition except_clauses :: "page \<Rightarrow> pyexc \<Rightarrow> page \<times> (pyexc + json)" where
  "except_clauses out e =
     (if is_RequestException e then (out @ [Error (request_error_text @ exc_text e)], Inr JNone)
      else if is_JSONDecodeError e then (out @ [Error not_json_text], Inr JNone)
      else if is_Exception e then (out @ [Error (unexpected_error_text @ exc_text e)], Inr JNone)
      else (out, Inl e))"

text \<open>Lines 101 to 119: the request, once the headers are there.\<close>

definition fetch :: "world \<Rightarrow> ui_input \<Rightarrow> headers \<Rightarrow> page \<Rightarrow> page \<times> (pyexc + json)" where
  "fetch W inp h out =
     (if button_clicked inp then
        (if api_url inp \<noteq> [] then
           (case requests_get W (api_url inp) h 30 of
              Inl e \<Rightarrow> except_clauses out e
            | Inr resp \<Rightarrow>
                (case raise_for_status resp of
                   Some e \<Rightarrow> except_clauses out e
                 | None \<Rightarrow>
                     (case response_json W resp of
                        Inl e \<Rightarrow> except_clauses out e
                      | Inr json_data \<Rightarrow>
                          (out @ [Success (api_success_head @ nat_str (status_code resp)
                                           @ ascii '')'')],
                           Inr json_data))))
         else (out, Inr JNone))
      else (out, Inr JNone))"

text \<open>Lines 54 to 119.\<close>

definition handle_api_request :: "world \<Rightarrow> ui_input \<Rightarrow> page \<Rightarrow> page \<times> (pyexc + json)" where
  "handle_api_request W inp out =
     (let out1 = out @ [Header api_header_text] in
      case custom_header_block W inp (credential_headers inp) out1 of
        Inl e \<Rightarrow> (out1, Inl e)
      | Inr (h, out2) \<Rightarrow> fetch W inp h out2)"

subsection \<open>display_json_data\<close>

text \<open>
  Lines 121 to 157: the type and, for a container, its size; the interactive view; the
  serialization with its download button; the structural summary from the empty prefix.
\<close>

definition display_json_data :: "pyenv \<Rightarrow> json \<Rightarrow> page \<Rightarrow> page" where
  "display_json_data E json_data out =
     (let out1 = out @ [Header display_header_text,
                        Metric type_metric_label (type_name json_data)];
          out2 = (case json_data of
                    JList xs \<Rightarrow> out1 @ [Metric size_metric_label (nat_str (length xs))]
                  | JDict kvs \<Rightarrow> out1 @ [Metric size_metric_label (nat_str (length kvs))]
                  | _ \<Rightarrow> out1);
          json_str = json_dumps E 0 json_data;
          out3 = out2 @ [Subheader tree_subheader_text, JsonView json_data,
                         Subheader raw_subheader_text, Code json_str,
                         DownloadButton download_label json_str (ascii ''data.json'')
                           (ascii ''application/json''),
                         Subheader structure_subheader_text]
      in analyze_json_structure E json_data [] out3)"

subsection \<open>main\<close>

text \<open>
  Lines 6 to 27. The result is the page and the exception that ended the run, if any.
  \<open>json_data is not None\<close> compares with the one \<open>None\<close> of Python, which is also what the
  parser returns for the document \<open>null\<close>.
\<close>

definition main :: "pyenv \<Rightarrow> world \<Rightarrow> ui_input \<Rightarrow> page \<times> pyexc option" where
  "main E W inp =
     (let out = [Title title_text, Markdown intro_text, SidebarTitle sidebar_title_text] in
      case (if input_method inp = upload_option
            then handle_file_upload W inp out
            else handle_api_request W inp out) of
        (out1, Inl e) \<Rightarrow> (out1, Some e)
      | (out1, Inr json_data) \<Rightarrow>
          if json_data \<noteq> JNone then (display_json_data E json_data out1, None)
          else (out1, None))"

subsection \<open>Example runs\<close>


text \<open>
  A world for the examples: bytes are ASCII, the parser and \<open>response.json()\<close> give one
  fixed result, and every request is answered with one fixed status.
\<close>

definition stub_world :: "nat \<Rightarrow> (pyexc + json) \<Rightarrow> world" where
  "stub_world status parsed =
     \<lparr>utf8_decode = (\<lambda>bytes. Inr (map unat bytes)),
      json_loads = (\<lambda>text. parsed),
      requests_get = (\<lambda>u h t. Inr \<lparr>status_code = status, reason = [], url = u, content = []\<rparr>),
      response_json = (\<lambda>resp. parsed),
      update_from_list = (\<lambda>h xs. Inr h)\<rparr>"


text \<open>A run with the API selected, a URL, custom headers and the button pressed.\<close>

definition request_of :: "pystr \<Rightarrow> pystr \<Rightarrow> ui_input" where
  "request_of u custom =
     \<lparr>input_method = [], uploaded_file = None, api_url = u,
      api_key = [], auth_header = [], custom_headers = custom, button_clicked = True\<rparr>"

section \<open>The page only grows\<close>

text \<open>
  Each function returns the page it was given with lines added at the end. First the two
  loops, given that much for the values they visit; then the function itself, by
  induction on the value.
\<close>

lemma dict_items_sink:
  "\<forall>kv \<in> set kvs. \<forall>p o1 o2.
     analyze_json_structure E (snd kv) p (o1 @ o2) = o1 @ analyze_json_structure E (snd kv) p o2 \<Longrightarrow>
   dict_items E kvs p (o1 @ o2) = o1 @ dict_items E kvs p o2"
proof (induction kvs arbitrary: o1 o2)
  case Nil
  then show ?case by simp
next
  case (Cons kv kvs)
  obtain k v where kv: "kv = (k, v)" by (cases kv)
  have here: "\<And>p o1 o2. analyze_json_structure E v p (o1 @ o2) = o1 @ analyze_json_structure E v p o2"
    using Cons.prems kv by simp
  have rest: "\<And>o1 o2. dict_items E kvs p (o1 @ o2) = o1 @ dict_items E kvs p o2"
    using Cons.IH Cons.prems by simp
  show ?case
    by (simp add: kv Let_def here rest)
qed

lemma list_items_sink:
  "\<forall>x \<in> set xs. \<forall>p o1 o2.
     analyze_json_structure E x p (o1 @ o2) = o1 @ analyze_json_structure E x p o2 \<Longrightarrow>
   list_items E xs i p (o1 @ o2) = o1 @ list_items E xs i p o2"
proof (induction xs arbitrary: i o1 o2)
  case Nil
  then show ?case by simp
next
  case (Cons x xs)
  have here: "\<And>p o1 o2. analyze_json_structure E x p (o1 @ o2) = o1 @ analyze_json_structure E x p o2"
    using Cons.prems by simp
  have rest: "\<And>i o1 o2. list_items E xs i p (o1 @ o2) = o1 @ list_items E xs i p o2"
    using Cons.IH Cons.prems by simp
  show ?case
    by (simp add: here rest)
qed

lemma analyze_sink:
  "analyze_json_structure E v p (o1 @ o2) = o1 @ analyze_json_structure E v p o2"
proof (induction v arbitrary: p o1 o2)
  case (JList xs)
  then have all: "\<forall>x \<in> set xs. \<forall>p o1 o2.
      analyze_json_structure E x p (o1 @ o2) = o1 @ analyze_json_structure E x p o2"
    by blast
  show ?case
    using list_items_sink [OF all, of 0 p o1
        "o2 @ [Write (list_header p (length xs)), Write (first_item_line (hd xs))]"]
    by (cases xs) (simp_all add: Let_def)
next
  case (JDict kvs)
  then have all: "\<forall>kv \<in> set kvs. \<forall>p o1 o2.
      analyze_json_structure E (snd kv) p (o1 @ o2) = o1 @ analyze_json_structure E (snd kv) p o2"
    by (metis snds.intros)
  show ?case
    using dict_items_sink [OF all, of p o1 "o2 @ [Write (dict_header p (length kvs))]"]
    by simp
qed simp_all

lemma analyze_out: "analyze_json_structure E v p out = out @ analyze_json_structure E v p []"
  using analyze_sink [of E v p out "[]"] by simp

lemma dict_items_out: "dict_items E kvs p out = out @ dict_items E kvs p []"
  using dict_items_sink [of kvs E p out "[]"] by (simp add: analyze_sink)

lemma list_items_out: "list_items E xs i p out = out @ list_items E xs i p []"
  using list_items_sink [of xs E i p out "[]"] by (simp add: analyze_sink)

section \<open>What the summarizer writes\<close>

text \<open>The lines of each loop, one group for each pair or item.\<close>

lemma dict_items_concat:
  "dict_items E kvs prefix [] =
     concat (map (\<lambda>(key, v).
       if is_container v
       then Write (container_line key v) #
              (if length (py_str E v) < 1000
               then analyze_json_structure E v (child_prefix prefix key) [] else [])
       else [Write (scalar_line E key v)]) kvs)"
proof (induction kvs)
  case Nil
  show ?case by simp
next
  case (Cons kv kvs)
  obtain key v where kv: "kv = (key, v)" by (cases kv)
  show ?case
    using Cons.IH
    by (simp add: kv Let_def dict_child_limit_def
        dict_items_out [of E kvs prefix "_ # _"]
        analyze_out [of E v "child_prefix prefix key" "[_]"])
qed

lemma list_items_concat:
  "list_items E xs i prefix [] =
     concat (map (\<lambda>(j, item).
       if is_container item \<and> length (py_str E item) < 500
       then analyze_json_structure E item (item_prefix prefix j) [] else [])
       (enumerate i xs))"
proof (induction xs arbitrary: i)
  case Nil
  show ?case by simp
next
  case (Cons x xs)
  show ?case
    using Cons.IH [of "Suc i"]
    by (simp add: list_item_limit_def
        list_items_out [of E xs "Suc i" prefix "analyze_json_structure _ _ _ _"])
qed

lemma analyze_dict_unfold:
  "analyze_json_structure E (JDict kvs) p out =
     out @ Write (dict_header p (length kvs)) # dict_items E kvs p []"
proof -
  have "analyze_json_structure E (JDict kvs) p out =
          dict_items E kvs p (out @ [Write (dict_header p (length kvs))])"
    by simp
  also have "\<dots> = (out @ [Write (dict_header p (length kvs))]) @ dict_items E kvs p []"
    by (rule dict_items_out)
  finally show ?thesis by simp
qed

lemma analyze_list_unfold:
  "analyze_json_structure E (JList (x # rest)) p out =
     out @ Write (list_header p (Suc (length rest))) # Write (first_item_line x) #
       (if length rest \<le> 2 then list_items E (x # rest) 0 p [] else [])"
proof (cases "length rest \<le> 2")
  case True
  have "analyze_json_structure E (JList (x # rest)) p out =
          list_items E (x # rest) 0 p
            (out @ [Write (list_header p (Suc (length rest))), Write (first_item_line x)])"
    using True by (simp add: Let_def)
  also have "\<dots> = (out @ [Write (list_header p (Suc (length rest))), Write (first_item_line x)])
                     @ list_items E (x # rest) 0 p []"
    by (rule list_items_out)
  finally show ?thesis using True by simp
next
  case False
  then show ?thesis by (simp add: Let_def)
qed

lemma analyze_container_nonempty:
  "analyze_json_structure E (JList xs) p [] \<noteq> []"
  "analyze_json_structure E (JDict kvs) p [] \<noteq> []"
proof -
  show "analyze_json_structure E (JList xs) p [] \<noteq> []"
  proof (cases xs)
    case Nil
    then show ?thesis by simp
  next
    case (Cons x rest)
    show ?thesis unfolding Cons analyze_list_unfold by simp
  qed
  show "analyze_json_structure E (JDict kvs) p [] \<noteq> []"
    unfolding analyze_dict_unfold by simp
qed

lemma child_prefix_eq:
  "child_prefix prefix key = (if prefix = [] then key else prefix @ ascii ''.'' @ key)"
  by (simp add: child_prefix_def)

lemma item_prefix_eq: "item_prefix prefix i = prefix @ ascii ''['' @ nat_str i @ ascii '']''"
  by (simp add: item_prefix_def)

text \<open>
  Claim C1, as the program has it. Summarizing a dict writes its header and then, for each
  pair in order, the child's line; a dict or list child is entered, with the prefix
  extended by \<open>.key\<close> (or just the key under the empty prefix), exactly when the length of
  \<open>str(value)\<close>, Python's own string form of the child, is below 1000. Entering a dict or
  a list always writes at least its header, so the recursion shows in the output.
\<close>

theorem dict_children_summary:
  "analyze_json_structure E (JDict kvs) prefix out =
     out @ Write (dict_header prefix (length kvs)) #
       concat (map (\<lambda>(key, v).
         if is_container v
         then Write (container_line key v) #
                (if length (py_str E v) < 1000
                 then analyze_json_structure E v
                        (if prefix = [] then key else prefix @ ascii ''.'' @ key) []
                 else [])
         else [Write (scalar_line E key v)]) kvs)
   \<and> analyze_json_structure E (JList xs) p [] \<noteq> []
   \<and> analyze_json_structure E (JDict d) p [] \<noteq> []"
  unfolding analyze_dict_unfold [of E kvs] dict_items_concat child_prefix_eq
  using analyze_container_nonempty by simp

text \<open>The example of the specification, \<open>{"a": 1, "b": {"x": 1}}\<close>, line by line.\<close>

theorem dict_children_summary_witness:
  "analyze_json_structure test_env
     (JDict [(ascii ''a'', JInt 1), (ascii ''b'', JDict [(ascii ''x'', JInt 1)])]) [] [] =
   [Write (ascii ''**Root** ('' @ [36766, 26360, 22411] @ ascii '' - 2 keys)''),
    Write ([32, 32, 8226, 32] @ ascii ''`a`: int = 1''),
    Write ([32, 32, 8226, 32] @ ascii ''`b`: dict''),
    Write (ascii ''**b** ('' @ [36766, 26360, 22411] @ ascii '' - 1 keys)''),
    Write ([32, 32, 8226, 32] @ ascii ''`x`: int = 1'')]"
  using dict_children_summary [of test_env
      "[(ascii ''a'', JInt 1), (ascii ''b'', JDict [(ascii ''x'', JInt 1)])]" "[]" "[]"]
  by (simp add: ascii_def dict_header_def label_def nat_str.simps scalar_line_def preview_def
      int_str_def container_line_def test_env_def str_repr_def repr_char_def child_prefix_def
      dict_child_limit_def)

text \<open>
  Claim C2, as the program has it. Summarizing a list writes its header and, when it is not
  empty, the type of its first element; element \<open>i\<close> is entered, with the prefix extended
  by \<open>[i]\<close>, exactly when the list has at most 3 elements, the element is a dict or list
  and the length of \<open>str(item)\<close> is below 500. A list of 5 integers gives the count 5 and
  the first type and nothing more; a list of two dicts, each below 500 characters in
  \<open>str\<close>, enters both as \<open>[0]\<close> and \<open>[1]\<close>.
\<close>

theorem list_items_summary:
  "analyze_json_structure E (JList xs) prefix out =
     out @ Write (list_header prefix (length xs)) #
       (case xs of
          [] \<Rightarrow> []
        | x # _ \<Rightarrow>
            Write (first_item_line x) #
              concat (map (\<lambda>(i, item).
                if length xs \<le> 3 \<and> is_container item \<and> length (py_str E item) < 500
                then analyze_json_structure E item (prefix @ ascii ''['' @ nat_str i @ ascii '']'') []
                else []) (enumerate 0 xs)))
   \<and> analyze_json_structure E (JList [JInt a, JInt b, JInt c, JInt d, JInt e]) prefix out =
       out @ [Write (list_header prefix 5), Write (first_item_line (JInt a))]
   \<and> (length (py_str E (JDict d0)) < 500 \<and> length (py_str E (JDict d1)) < 500 \<longrightarrow>
        analyze_json_structure E (JList [JDict d0, JDict d1]) [] out =
          out @ [Write (list_header [] 2), Write (first_item_line (JDict d0))]
              @ analyze_json_structure E (JDict d0) (ascii ''[0]'') []
              @ analyze_json_structure E (JDict d1) (ascii ''[1]'') [])"
proof (intro conjI impI)
  show "analyze_json_structure E (JList xs) prefix out =
     out @ Write (list_header prefix (length xs)) #
       (case xs of
          [] \<Rightarrow> []
        | x # _ \<Rightarrow>
            Write (first_item_line x) #
              concat (map (\<lambda>(i, item).
                if length xs \<le> 3 \<and> is_container item \<and> length (py_str E item) < 500
                then analyze_json_structure E item (prefix @ ascii ''['' @ nat_str i @ ascii '']'') []
                else []) (enumerate 0 xs)))"
  proof (cases xs)
    case Nil
    then show ?thesis by simp
  next
    case (Cons x rest)
    show ?thesis
    proof (cases "length rest \<le> 2")
      case True
      then show ?thesis
        unfolding Cons analyze_list_unfold list_items_concat item_prefix_eq by simp
    next
      case False
      have "concat (map (\<lambda>(i, item).
                  if length xs \<le> 3 \<and> is_container item \<and> length (py_str E item) < 500
                  then analyze_json_structure E item (prefix @ ascii ''['' @ nat_str i @ ascii '']'') []
                  else []) (enumerate 0 xs)) = []"
        using False Cons by (auto simp: concat_eq_Nil_conv)
      then show ?thesis
        using False unfolding Cons analyze_list_unfold by simp
    qed
  qed
next
  show "analyze_json_structure E (JList [JInt a, JInt b, JInt c, JInt d, JInt e]) prefix out =
       out @ [Write (list_header prefix 5), Write (first_item_line (JInt a))]"
    by (simp add: Let_def eval_nat_numeral)
next
  assume small: "length (py_str E (JDict d0)) < 500 \<and> length (py_str E (JDict d1)) < 500"
  have step: "analyze_json_structure E (JList [JDict d0, JDict d1]) [] out =
          out @ Write (list_header [] (Suc (length [JDict d1]))) #
            Write (first_item_line (JDict d0)) #
            (if length [JDict d1] \<le> 2 then list_items E [JDict d0, JDict d1] 0 [] [] else [])"
    by (rule analyze_list_unfold)
  have items: "list_items E [JDict d0, JDict d1] 0 [] [] =
      analyze_json_structure E (JDict d0) (ascii ''[0]'') []
        @ analyze_json_structure E (JDict d1) (ascii ''[1]'') []"
    unfolding list_items_concat using small
    by (simp add: enumerate_eq_zip upt_rec item_prefix_def nat_str.simps ascii_def)
  show "analyze_json_structure E (JList [JDict d0, JDict d1]) [] out =
          out @ [Write (list_header [] 2), Write (first_item_line (JDict d0))]
              @ analyze_json_structure E (JDict d0) (ascii ''[0]'') []
              @ analyze_json_structure E (JDict d1) (ascii ''[1]'') []"
    unfolding step items by (simp add: numeral_2_eq_2)
qed

text \<open>Two small dicts in a list, and five integers.\<close>

theorem list_items_summary_witness:
  "length (py_str test_env (JDict [(ascii ''a'', JInt 1)])) < 500
   \<and> length (py_str test_env (JDict [])) < 500
   \<and> analyze_json_structure test_env (JList [JDict [(ascii ''a'', JInt 1)], JDict []]) [] [] =
       [Write (ascii ''**Root** ('' @ [37197, 21015, 22411] @ ascii '' - 2 items)''),
        Write ([32, 32, 8226, 32, 35201, 32032, 22411] @ ascii '': dict''),
        Write (ascii ''**[0]** ('' @ [36766, 26360, 22411] @ ascii '' - 1 keys)''),
        Write ([32, 32, 8226, 32] @ ascii ''`a`: int = 1''),
        Write (ascii ''**[1]** ('' @ [36766, 26360, 22411] @ ascii '' - 0 keys)'')]
   \<and> analyze_json_structure test_env (JList [JInt 1, JInt 2, JInt 3, JInt 4, JInt 5]) [] [] =
       [Write (ascii ''**Root** ('' @ [37197, 21015, 22411] @ ascii '' - 5 items)''),
        Write ([32, 32, 8226, 32, 35201, 32032, 22411] @ ascii '': int'')]"
  using list_items_summary [of test_env "[]" "[]" "[]" 1 2 3 4 5 "[(ascii ''a'', JInt 1)]" "[]"]
  by (simp add: ascii_def dict_header_def list_header_def label_def nat_str.simps
      scalar_line_def preview_def int_str_def first_item_line_def test_env_def str_repr_def
      repr_char_def item_prefix_def list_item_limit_def)

section \<open>How much the summarizer writes\<close>

text \<open>
  Counting lines: a loop writes at most two lines for each node it visits, and a list
  loop one less for each of its items.
\<close>

lemma jnodes_pos: "0 < jnodes v"
  by (cases v) simp_all

lemma dict_items_count:
  "\<forall>kv \<in> set kvs. \<forall>p. length (analyze_json_structure E (snd kv) p []) < 2 * jnodes (snd kv) \<Longrightarrow>
   length (dict_items E kvs p []) \<le> 2 * sum_list (map (\<lambda>kv. jnodes (snd kv)) kvs)"
proof (induction kvs)
  case Nil
  show ?case by simp
next
  case (Cons kv kvs)
  obtain key v where kv: "kv = (key, v)" by (cases kv)
  have here: "length (analyze_json_structure E v (child_prefix p key) []) < 2 * jnodes v"
    using Cons.prems kv by simp
  have rest: "length (dict_items E kvs p []) \<le> 2 * sum_list (map (\<lambda>kv. jnodes (snd kv)) kvs)"
    using Cons by simp
  show ?case
    using here rest jnodes_pos [of v] unfolding kv dict_items_concat by simp
qed

lemma list_items_count:
  "\<forall>x \<in> set xs. \<forall>p. length (analyze_json_structure E x p []) < 2 * jnodes x \<Longrightarrow>
   length (list_items E xs i p []) + length xs \<le> 2 * sum_list (map jnodes xs)"
proof (induction xs arbitrary: i)
  case Nil
  show ?case by simp
next
  case (Cons x xs)
  have here: "length (analyze_json_structure E x (item_prefix p i) []) < 2 * jnodes x"
    using Cons.prems by simp
  have rest: "length (list_items E xs (Suc i) p []) + length xs \<le> 2 * sum_list (map jnodes xs)"
    using Cons by simp
  show ?case
    using here rest jnodes_pos [of x] unfolding list_items_concat by simp
qed

lemma analyze_count: "length (analyze_json_structure E v p []) < 2 * jnodes v"
proof (induction v arbitrary: p)
  case (JList xs)
  then have all: "\<forall>x \<in> set xs. \<forall>p. length (analyze_json_structure E x p []) < 2 * jnodes x"
    by blast
  show ?case
  proof (cases xs)
    case Nil
    then show ?thesis by simp
  next
    case (Cons x rest)
    have a: "length (list_items E xs 0 p []) + length xs \<le> 2 * sum_list (map jnodes xs)"
      using list_items_count [OF all] .
    have b: "0 < length xs"
      using Cons by simp
    have eq: "analyze_json_structure E (JList xs) p [] =
                Write (list_header p (length xs)) # Write (first_item_line x) #
                  (if length rest \<le> 2 then list_items E xs 0 p [] else [])"
      using analyze_list_unfold [of E x rest p "[]"] Cons by simp
    have le: "length (analyze_json_structure E (JList xs) p []) \<le>
            2 + length (list_items E xs 0 p [])"
      unfolding eq by simp
    have j: "jnodes (JList xs) = 1 + sum_list (map jnodes xs)"
      by simp
    have arith: "\<And>A L n S :: nat. A \<le> 2 + L \<Longrightarrow> L + n \<le> 2 * S \<Longrightarrow> 0 < n \<Longrightarrow> A < 2 * (1 + S)"
      by arith
    show ?thesis
      unfolding j by (rule arith [OF le a b])
  qed
next
  case (JDict kvs)
  then have all: "\<forall>kv \<in> set kvs. \<forall>p.
      length (analyze_json_structure E (snd kv) p []) < 2 * jnodes (snd kv)"
    by (metis snds.intros)
  show ?case
    unfolding analyze_dict_unfold
    using dict_items_count [OF all] by (simp add: less_Suc_eq_le)
qed simp_all

text \<open>
  Claim C4. The summarizer is a total function (its recursion is on the size of the
  value), and it writes fewer than twice as many lines as the value has nodes, whatever
  the prefix and the page so far.
\<close>

theorem summarizer_line_bound:
  "length (analyze_json_structure E v prefix out) < length out + 2 * jnodes v"
proof -
  have "length (analyze_json_structure E v prefix []) < 2 * jnodes v"
    by (rule analyze_count)
  then show ?thesis
    by (subst analyze_out) simp
qed

text \<open>
  Claim C3. For a child that is neither dict nor list, the line written is the key, the
  type and the preview: \<open>str(value)\<close> in full when it has at most 50 characters, and
  otherwise its first 50 characters followed by three dots.
\<close>

theorem scalar_child_preview:
  assumes "(key, v) \<in> set kvs" and "\<not> is_container v"
  shows "Write ([32, 32, 8226, 32, 96] @ key @ ascii ''`: '' @ type_name v @ ascii '' = ''
                @ (if length (py_str E v) \<le> 50 then py_str E v
                   else take 50 (py_str E v) @ ascii ''...''))
         \<in> set (analyze_json_structure E (JDict kvs) prefix out)"
proof -
  have "Write (scalar_line E key v) \<in> set (dict_items E kvs prefix [])"
    unfolding dict_items_concat using assms by force
  moreover have "scalar_line E key v =
      [32, 32, 8226, 32, 96] @ key @ ascii ''`: '' @ type_name v @ ascii '' = ''
                @ (if length (py_str E v) \<le> 50 then py_str E v
                   else take 50 (py_str E v) @ ascii ''...'')"
    by (simp add: scalar_line_def preview_def)
  ultimately show ?thesis
    unfolding analyze_dict_unfold by simp
qed

text \<open>A string of 52 characters is cut after 50; one of 40 is shown whole.\<close>

theorem scalar_child_preview_witness:
  "(ascii ''s'', JStr (ascii ''abcdefghijklmnopqrstuvwxyzabcdefghijklmnopqrstuvwxyz''))
     \<in> set [(ascii ''s'', JStr (ascii ''abcdefghijklmnopqrstuvwxyzabcdefghijklmnopqrstuvwxyz'')),
             (ascii ''t'', JStr (ascii ''abcdefghijklmnopqrstuvwxyzabcdefghijklmn''))]
   \<and> \<not> is_container (JStr (ascii ''abcdefghijklmnopqrstuvwxyzabcdefghijklmnopqrstuvwxyz''))
   \<and> Write ([32, 32, 8226, 32]
              @ ascii ''`s`: str = abcdefghijklmnopqrstuvwxyzabcdefghijklmnopqrstuvwx...'')
       \<in> set (analyze_json_structure test_env
            (JDict [(ascii ''s'', JStr (ascii ''abcdefghijklmnopqrstuvwxyzabcdefghijklmnopqrstuvwxyz'')),
                    (ascii ''t'', JStr (ascii ''abcdefghijklmnopqrstuvwxyzabcdefghijklmn''))]) [] [])
   \<and> Write ([32, 32, 8226, 32]
              @ ascii ''`t`: str = abcdefghijklmnopqrstuvwxyzabcdefghijklmn'')
       \<in> set (analyze_json_structure test_env
            (JDict [(ascii ''s'', JStr (ascii ''abcdefghijklmnopqrstuvwxyzabcdefghijklmnopqrstuvwxyz'')),
                    (ascii ''t'', JStr (ascii ''abcdefghijklmnopqrstuvwxyzabcdefghijklmn''))]) [] [])"
  using scalar_child_preview [of "ascii ''s''"
      "JStr (ascii ''abcdefghijklmnopqrstuvwxyzabcdefghijklmnopqrstuvwxyz'')"
      "[(ascii ''s'', JStr (ascii ''abcdefghijklmnopqrstuvwxyzabcdefghijklmnopqrstuvwxyz'')),
        (ascii ''t'', JStr (ascii ''abcdefghijklmnopqrstuvwxyzabcdefghijklmn''))]" test_env "[]" "[]"]
    scalar_child_preview [of "ascii ''t''"
      "JStr (ascii ''abcdefghijklmnopqrstuvwxyzabcdefghijklmn'')"
      "[(ascii ''s'', JStr (ascii ''abcdefghijklmnopqrstuvwxyzabcdefghijklmnopqrstuvwxyz'')),
        (ascii ''t'', JStr (ascii ''abcdefghijklmnopqrstuvwxyzabcdefghijklmn''))]" test_env "[]" "[]"]
  by (simp add: ascii_def)


section \<open>The two string forms differ\<close>

text \<open>
  A list of ones: \<open>str\<close> takes three characters for each element, the indented
  serialization five and two more.
\<close>

lemma length_py_join_replicate:
  "0 < n \<Longrightarrow> length (py_join sep (replicate n p)) = n * length p + (n - 1) * length sep"
proof (induction n)
  case 0
  then show ?case by simp
next
  case (Suc n)
  show ?case
  proof (cases n)
    case 0
    then show ?thesis by simp
  next
    case (Suc m)
    then show ?thesis using Suc.IH by simp
  qed
qed

lemma analyze_long_list:
  "3 < length xs \<Longrightarrow>
   analyze_json_structure E (JList xs) p out =
     out @ [Write (list_header p (length xs)), Write (first_item_line (hd xs))]"
  by (cases xs) (simp_all add: Let_def)

lemma py_str_ones: "0 < n \<Longrightarrow> length (py_str E (JList (replicate n (JInt 1)))) = 3 * n"
  by (simp add: length_py_join_replicate int_str_def nat_str.simps algebra_simps)

lemma json_dumps_ones:
  "0 < n \<Longrightarrow> length (json_dumps E 0 (JList (replicate n (JInt 1)))) = 5 * n + 2"
  by (simp add: length_py_join_replicate int_str_def nat_str.simps newline_indent_def algebra_simps)

text \<open>
  Claim C1 as stated measures the indented serialization of line 144 instead. It fails for
  a child list of 200 ones: the serialization has 1002 characters, \<open>str\<close> gives 600, and
  the summarizer enters the child (the last two lines).
\<close>

theorem dict_child_canonical_counterexample:
  "length (json_dumps test_env 0 (JList (replicate 200 (JInt 1)))) = 1002
   \<and> length (py_str test_env (JList (replicate 200 (JInt 1)))) = 600
   \<and> analyze_json_structure test_env (JDict [(ascii ''k'', JList (replicate 200 (JInt 1)))]) [] [] =
       [Write (dict_header [] 1),
        Write (container_line (ascii ''k'') (JList (replicate 200 (JInt 1)))),
        Write (list_header (ascii ''k'') 200),
        Write (first_item_line (JInt 1))]"
proof -
  have a: "length (json_dumps test_env 0 (JList (replicate 200 (JInt 1)))) = 1002"
    using json_dumps_ones [of 200 test_env] by simp
  have b: "length (py_str test_env (JList (replicate 200 (JInt 1)))) = 600"
    using py_str_ones [of 200 test_env] by simp
  have c: "analyze_json_structure test_env (JList (replicate 200 (JInt 1))) (ascii ''k'') [] =
       [Write (list_header (ascii ''k'') 200), Write (first_item_line (JInt 1))]"
    using analyze_long_list [of "replicate 200 (JInt 1)" test_env "ascii ''k''" "[]"] by simp
  have "analyze_json_structure test_env (JDict [(ascii ''k'', JList (replicate 200 (JInt 1)))]) [] [] =
       [Write (dict_header [] 1),
        Write (container_line (ascii ''k'') (JList (replicate 200 (JInt 1)))),
        Write (list_header (ascii ''k'') 200),
        Write (first_item_line (JInt 1))]"
    unfolding analyze_dict_unfold dict_items_concat using b c
    by (simp add: child_prefix_def)
  with a b show ?thesis by simp
qed

text \<open>
  Claim C2 as stated measures the indented serialization instead. It fails for a list whose
  one element is a list of 100 ones: the serialization of the element has 502 characters,
  \<open>str\<close> gives 300, and the summarizer enters the element.
\<close>

theorem list_item_canonical_counterexample:
  "length (json_dumps test_env 0 (JList (replicate 100 (JInt 1)))) = 502
   \<and> length (py_str test_env (JList (replicate 100 (JInt 1)))) = 300
   \<and> analyze_json_structure test_env (JList [JList (replicate 100 (JInt 1))]) [] [] =
       [Write (list_header [] 1),
        Write (first_item_line (JList (replicate 100 (JInt 1)))),
        Write (list_header (ascii ''[0]'') 100),
        Write (first_item_line (JInt 1))]"
proof -
  have a: "length (json_dumps test_env 0 (JList (replicate 100 (JInt 1)))) = 502"
    using json_dumps_ones [of 100 test_env] by simp
  have b: "length (py_str test_env (JList (replicate 100 (JInt 1)))) = 300"
    using py_str_ones [of 100 test_env] by simp
  have c: "analyze_json_structure test_env (JList (replicate 100 (JInt 1))) (ascii ''[0]'') [] =
       [Write (list_header (ascii ''[0]'') 100), Write (first_item_line (JInt 1))]"
    using analyze_long_list [of "replicate 100 (JInt 1)" test_env "ascii ''[0]''" "[]"] by simp
  have "analyze_json_structure test_env (JList [JList (replicate 100 (JInt 1))]) [] [] =
       [Write (list_header [] 1),
        Write (first_item_line (JList (replicate 100 (JInt 1)))),
        Write (list_header (ascii ''[0]'') 100),
        Write (first_item_line (JInt 1))]"
    unfolding analyze_list_unfold list_items_concat using b c
    by (simp add: item_prefix_def nat_str.simps ascii_def)
  with a b show ?thesis by simp
qed

section \<open>Loading and showing\<close>





text \<open>
  Custom headers that the parser rejects: a warning, the headers of the credential
  alone, and the request goes on.
\<close>

lemma custom_headers_malformed_warns:
  assumes "custom_headers inp \<noteq> []"
    and "json_loads W (custom_headers inp) = Inl e"
    and "is_JSONDecodeError e"
  shows "handle_api_request W inp out =
           fetch W inp (credential_headers inp)
             (out @ [Header api_header_text, Warning bad_headers_text])"
  using assms by (simp add: handle_api_request_def custom_header_block_def)

text \<open>
  Claim C8 at the custom header text \<open>42\<close>. The parser accepts it and returns the
  integer, \<open>headers.update(42)\<close> raises a \<open>TypeError\<close>, the one \<open>except\<close> clause does not
  catch it, and the exception ends \<open>handle_api_request\<close> and the run: no warning is
  shown and no request is made.
\<close>

theorem custom_headers_number_raises:
  assumes "input_method inp \<noteq> upload_option"
    and "custom_headers inp = ascii ''42''"
    and "json_loads W (ascii ''42'') = Inr (JInt 42)"
  shows "handle_api_request W inp out =
           (out @ [Header api_header_text],
            Inl (exc_of (TypeError ([39] @ ascii ''int'' @ [39] @ ascii '' object is not iterable''))))
         \<and> main E W inp =
           ([Title title_text, Markdown intro_text, SidebarTitle sidebar_title_text,
             Header api_header_text],
            Some (exc_of (TypeError ([39] @ ascii ''int'' @ [39] @ ascii '' object is not iterable''))))"
proof -
  have ne: "custom_headers inp \<noteq> []"
    using assms(2) by (simp add: ascii_def)
  have "handle_api_request W inp out =
           (out @ [Header api_header_text],
            Inl (exc_of (TypeError ([39] @ ascii ''int'' @ [39] @ ascii '' object is not iterable''))))"
    for out
    using ne assms(3) unfolding assms(2) [symmetric]
    by (simp add: handle_api_request_def custom_header_block_def)
  then show ?thesis
    using assms(1) by (simp add: main_def)
qed

text \<open>
  A run with the custom headers \<open>42\<close>.
\<close>

theorem custom_headers_number_raises_witness:
  "input_method (request_of (ascii ''http://h/'') (ascii ''42'')) \<noteq> upload_option
   \<and> custom_headers (request_of (ascii ''http://h/'') (ascii ''42'')) = ascii ''42''
   \<and> json_loads (stub_world 200 (Inr (JInt 42))) (ascii ''42'') = Inr (JInt 42)
   \<and> main test_env (stub_world 200 (Inr (JInt 42))) (request_of (ascii ''http://h/'') (ascii ''42'')) =
       ([Title title_text, Markdown intro_text, SidebarTitle sidebar_title_text,
         Header api_header_text],
        Some \<lparr>exc_text = [39] @ ascii ''int'' @ [39] @ ascii '' object is not iterable'',
              is_JSONDecodeError = False, is_RequestException = False, is_Exception = True\<rparr>)"
  using custom_headers_number_raises
    [of "request_of (ascii ''http://h/'') (ascii ''42'')" "stub_world 200 (Inr (JInt 42))" "[]" test_env]
  by (simp add: request_of_def stub_world_def upload_option_def ascii_def)




end
